theory Spec2Isabelle
  imports Main "HOL-Library.Sublist"
begin

section \<open>Data model\<close>

text \<open>
  A valid JavaScript \<^verbatim>\<open>Date\<close> is its \<^verbatim>\<open>getTime()\<close> value: milliseconds since the
  epoch. Every \<^verbatim>\<open>new Date()\<close> of the source is a clock reading that the model receives
  as an argument. An \<^verbatim>\<open>Error\<close> is its message; a function that throws returns
  \<open>Inl message\<close>.
\<close>

type_synonym date = int
type_synonym error = string

text \<open>
  A \<^verbatim>\<open>Date\<close> object that a computation has produced: its time value, or the Invalid
  Date (time value \<^verbatim>\<open>NaN\<close>). \<^verbatim>\<open>TimeClip\<close> of ECMAScript makes every time value beyond
  8.64e15 ms from the epoch invalid.
\<close>

datatype js_date = Date date | InvalidDate

definition TimeClip :: "int \<Rightarrow> js_date" where
  "TimeClip t = (if \<bar>t\<bar> > 8640000000000000 then InvalidDate else Date t)"

datatype file_status = active | deleted

text \<open>\<^verbatim>\<open>IFile\<close> (models/File.ts).\<close>

record IFile =
  fileId :: string
  userId :: string
  fileName :: string
  blobUrl :: string
  fileSize :: nat
  contentType :: string
  uploadDate :: date
  status :: file_status

text \<open>
  \<^verbatim>\<open>CreateShareLinkData\<close> (services/ShareLinkService.ts). \<^verbatim>\<open>expirationDays\<close> is an
  optional number; the model takes the integer-valued ones (\<^verbatim>\<open>Date.setDate\<close> truncates
  its argument to an integer).
\<close>

record CreateShareLinkData =
  fileId :: string
  userId :: string
  expirationDays :: "int option"

text \<open>
  \<^verbatim>\<open>IShareLink\<close> (models/ShareLink.ts), as a document of the store and as the store
  returns it: JSON, in which a valid date is its ISO string (\<open>Some\<close> of its time value)
  and an Invalid Date is \<^verbatim>\<open>null\<close> (\<open>None\<close>). The interface declares
  \<^verbatim>\<open>expiryDate: Date\<close>, so every document has the field. \<^verbatim>\<open>ttl\<close> is optional.
\<close>

record IShareLink =
  linkId :: string
  fileId :: string
  userId :: string
  expiryDate :: "date option"
  accessCount :: int
  createdDate :: date
  isRevoked :: bool
  ttl :: "int option"

text \<open>The value \<^verbatim>\<open>getFileByShareLink\<close> resolves to, which the route sends as JSON.\<close>

record ShareLinkFile =
  "file" :: IFile
  shareLink :: IShareLink
  downloadUrl :: string

text \<open>\<^verbatim>\<open>BlobConfig\<close> with the account name read from the connection string.\<close>

record BlobConfig =
  accountName :: string
  containerName :: string

text \<open>
  The external services, as far as the share-link code observes them. An error that
  carries no \<^verbatim>\<open>code\<close> stands as any code other than 404.
  \<^item> \<open>queryError\<close>: \<open>Some code\<close> when \<^verbatim>\<open>getContainer\<close> or
    \<^verbatim>\<open>container.items.query(...).fetchAll()\<close> rejects on the ShareLinks container, with
    the error's \<^verbatim>\<open>code\<close>;
  \<^item> \<open>createThrows\<close>: \<^verbatim>\<open>getContainer\<close> or \<^verbatim>\<open>container.items.create\<close> rejects, or the
    response holds no resource;
  \<^item> \<open>replaceThrows\<close>, \<open>deleteThrows\<close>: \<^verbatim>\<open>container.item(id, linkId).replace\<close> and
    \<^verbatim>\<open>.delete\<close> reject for the document of that link id;
  \<^item> \<open>fileQueryError\<close>: as \<open>queryError\<close>, for the Files container;
  \<^item> \<open>fileDeleteError\<close>: \<open>Some code\<close> when \<^verbatim>\<open>container.item(id, fileId).delete()\<close>
    rejects for the document of that file id, with the error's \<^verbatim>\<open>code\<close>;
  \<^item> \<open>blobDeleteThrows\<close>: \<^verbatim>\<open>blobClient.delete()\<close> rejects;
  \<^item> \<open>blobConfig\<close>: \<open>None\<close> when the storage connection string is missing or
    malformed (\<^verbatim>\<open>getBlobConfig\<close>, \<^verbatim>\<open>getStorageCredentials\<close> throw);
  \<^item> \<open>sasSign\<close>: \<^verbatim>\<open>generateBlobSASQueryParameters(...).toString()\<close> of the Azure SDK,
    for a container, a blob name and an \<^verbatim>\<open>expiresOn\<close> date, with read permission.
\<close>

record services =
  queryError :: "int option"
  createThrows :: bool
  replaceThrows :: "string \<Rightarrow> bool"
  deleteThrows :: "string \<Rightarrow> bool"
  fileQueryError :: "int option"
  fileDeleteError :: "string \<Rightarrow> int option"
  blobDeleteThrows :: bool
  blobConfig :: "BlobConfig option"
  sasSign :: "string \<Rightarrow> string \<Rightarrow> date \<Rightarrow> string"

text \<open>
  The stored state: the documents of the Files and ShareLinks containers, in the order
  a query returns them, and the names of the stored blobs.
\<close>

record world =
  files :: "IFile list"
  shareLinks :: "IShareLink list"
  blobs :: "string list"

text \<open>
  The clock readings of \<^verbatim>\<open>createShareLink\<close>, in the order the source takes them:
  in \<^verbatim>\<open>calculateExpiryDate\<close>, in \<^verbatim>\<open>calculateTTL\<close>, in
  \<^verbatim>\<open>expiryDate || new Date()\<close> and in \<^verbatim>\<open>createdDate: new Date()\<close>.
\<close>

record create_clock =
  tExpiry :: date
  tTTL :: date
  tFallback :: date
  tCreated :: date

text \<open>
  The clock readings of \<^verbatim>\<open>getFileByShareLink\<close>: in \<^verbatim>\<open>isShareLinkValid\<close>, in
  \<^verbatim>\<open>const now = new Date()\<close> and in \<^verbatim>\<open>generateBlobSASUrl\<close>.
\<close>

record resolve_clock =
  tValid :: date
  tNow :: date
  tSign :: date

section \<open>String helpers of JavaScript\<close>

text \<open>\<^verbatim>\<open>hay.includes(needle)\<close>.\<close>

definition str_includes :: "string \<Rightarrow> string \<Rightarrow> bool" where
  "str_includes hay needle = sublist needle hay"

text \<open>\<^verbatim>\<open>s.split(c)\<close> for a one-character separator: never empty.\<close>

fun split :: "char \<Rightarrow> string \<Rightarrow> string list" where
  "split c [] = [[]]"
| "split c (x # xs) =
     (if x = c then [] # split c xs
      else (case split c xs of
              [] \<Rightarrow> [[x]]
            | p # ps \<Rightarrow> (x # p) # ps))"

text \<open>\<^verbatim>\<open>parts.join(sep)\<close>.\<close>

fun join :: "string \<Rightarrow> string list \<Rightarrow> string" where
  "join sep [] = []"
| "join sep [p] = p"
| "join sep (p # q # ps) = p @ sep @ join sep (q # ps)"

text \<open>\<^verbatim>\<open>parts.findIndex(pred)\<close>: the first index, or -1.\<close>

fun findIndex :: "('a \<Rightarrow> bool) \<Rightarrow> 'a list \<Rightarrow> int" where
  "findIndex P [] = -1"
| "findIndex P (x # xs) =
     (if P x then 0
      else (let i = findIndex P xs in if i < 0 then -1 else i + 1))"

text \<open>\<^verbatim>\<open>parts.slice(start)\<close> for \<open>start \<ge> 0\<close>.\<close>

definition slice :: "int \<Rightarrow> 'a list \<Rightarrow> 'a list" where
  "slice start xs = drop (nat start) xs"

section \<open>Share link lifecycle (services/ShareLinkService.ts, repos/CosmosShareLinkRepo.ts)\<close>

text \<open>
  \<^verbatim>\<open>calculateExpiryDate\<close>: \<^verbatim>\<open>!expirationDays\<close> holds for \<^verbatim>\<open>undefined\<close> and for 0.
  \<^verbatim>\<open>setDate(getDate() + n)\<close> moves the date by \<open>n\<close> calendar days, which is
  \<open>n * 86400000\<close> ms in a time zone without clock changes (UTC), and clips the
  result: beyond the range of \<^verbatim>\<open>Date\<close> it is the Invalid Date.
\<close>

definition calculateExpiryDate :: "date \<Rightarrow> int option \<Rightarrow> js_date option" where
  "calculateExpiryDate now days =
     (case days of
        None \<Rightarrow> None
      | Some n \<Rightarrow> if n = 0 then None else Some (TimeClip (now + n * 86400000)))"

text \<open>
  \<^verbatim>\<open>calculateTTL\<close>: \<^verbatim>\<open>Math.floor\<close> of the quotient is \<open>div\<close> on \<open>int\<close>. An Invalid
  Date is an object, so \<^verbatim>\<open>!expiryDate\<close> is false for it; its difference is \<^verbatim>\<open>NaN\<close>, and
  \<^verbatim>\<open>NaN > 0\<close> is false.
\<close>

definition calculateTTL :: "date \<Rightarrow> js_date option \<Rightarrow> int option" where
  "calculateTTL now expiry =
     (case expiry of
        None \<Rightarrow> None
      | Some InvalidDate \<Rightarrow> None
      | Some (Date e) \<Rightarrow>
          (let diffInSeconds = (e - now) div 1000
           in if diffInSeconds > 0 then Some diffInSeconds else None))"

text \<open>
  What \<^verbatim>\<open>JSON.stringify\<close> stores for a \<^verbatim>\<open>Date\<close> and the store returns: the ISO string
  of a valid date, \<^verbatim>\<open>null\<close> for the Invalid Date.
\<close>

definition toJSON :: "js_date \<Rightarrow> date option" where
  "toJSON d = (case d of Date t \<Rightarrow> Some t | InvalidDate \<Rightarrow> None)"

text \<open>
  \<^verbatim>\<open>isShareLinkValid\<close>, with the reading of \<^verbatim>\<open>new Date()\<close> as \<open>now\<close>. A stored
  \<^verbatim>\<open>null\<close> is falsy in \<^verbatim>\<open>shareLink.expiryDate && ...\<close>.
\<close>

definition isShareLinkValid :: "IShareLink \<Rightarrow> date \<Rightarrow> bool" where
  "isShareLinkValid link now =
     (if isRevoked link then False
      else if (case expiryDate link of None \<Rightarrow> False | Some e \<Rightarrow> e < now) then False
      else True)"

text \<open>
  The validity rule in the words of the specification: valid iff not revoked and
  (\<open>expiresAt\<close> is "never" or \<open>now < expiresAt\<close>).
\<close>

definition Validate_spec :: "bool \<Rightarrow> date option \<Rightarrow> date \<Rightarrow> bool" where
  "Validate_spec revoked expiresAt now =
     (\<not> revoked \<and> (case expiresAt of None \<Rightarrow> True | Some e \<Rightarrow> now < e))"

subsection \<open>The ShareLinks container (repos/CosmosShareLinkRepo.ts)\<close>

text \<open>
  \<^verbatim>\<open>container.item(cosmosId, linkId).replace(body)\<close> and \<^verbatim>\<open>.delete()\<close>. The source
  reads \<^verbatim>\<open>cosmosId\<close> off the document that \<^verbatim>\<open>getShareLinkById\<close> returns, which is the
  first document with the link id: that document is the one replaced or deleted.
\<close>

fun replaceItem :: "string \<Rightarrow> IShareLink \<Rightarrow> IShareLink list \<Rightarrow> IShareLink list" where
  "replaceItem lid body [] = []"
| "replaceItem lid body (d # ds) =
     (if linkId d = lid then body # ds else d # replaceItem lid body ds)"


definition ShareLinkRepo_createShareLink ::
  "services \<Rightarrow> IShareLink list \<Rightarrow> IShareLink \<Rightarrow> (error + IShareLink) \<times> IShareLink list" where
  "ShareLinkRepo_createShareLink svc docs link =
     (if createThrows svc then (Inl ''Failed to create share link'', docs)
      else (Inr link, docs @ [link]))"

text \<open>\<^verbatim>\<open>getShareLinkById\<close>: \<^verbatim>\<open>resources[0]\<close> or null; an error with code 404 is null.\<close>

definition ShareLinkRepo_getShareLinkById ::
  "services \<Rightarrow> IShareLink list \<Rightarrow> string \<Rightarrow> error + IShareLink option" where
  "ShareLinkRepo_getShareLinkById svc docs lid =
     (case queryError svc of
        None \<Rightarrow> Inr (find (\<lambda>d. linkId d = lid) docs)
      | Some code \<Rightarrow> if code = 404 then Inr None else Inl ''Failed to get share link'')"


text \<open>\<^verbatim>\<open>updateShareLink\<close>: every throw inside the \<^verbatim>\<open>try\<close> is rethrown with one message.\<close>

definition ShareLinkRepo_updateShareLink ::
  "services \<Rightarrow> IShareLink list \<Rightarrow> IShareLink \<Rightarrow> (error + IShareLink) \<times> IShareLink list" where
  "ShareLinkRepo_updateShareLink svc docs link =
     (case ShareLinkRepo_getShareLinkById svc docs (linkId link) of
        Inl e \<Rightarrow> (Inl ''Failed to update share link'', docs)
      | Inr None \<Rightarrow> (Inl ''Failed to update share link'', docs)
      | Inr (Some existingLink) \<Rightarrow>
          if replaceThrows svc (linkId link) then (Inl ''Failed to update share link'', docs)
          else (Inr link, replaceItem (linkId link) link docs))"

definition ShareLinkRepo_revokeShareLink ::
  "services \<Rightarrow> IShareLink list \<Rightarrow> string \<Rightarrow> (error + unit) \<times> IShareLink list" where
  "ShareLinkRepo_revokeShareLink svc docs lid =
     (case ShareLinkRepo_getShareLinkById svc docs lid of
        Inl e \<Rightarrow> (Inl ''Failed to revoke share link'', docs)
      | Inr None \<Rightarrow> (Inl ''Failed to revoke share link'', docs)
      | Inr (Some link) \<Rightarrow>
          (case ShareLinkRepo_updateShareLink svc docs (link\<lparr>isRevoked := True\<rparr>) of
             (Inl e, docs') \<Rightarrow> (Inl ''Failed to revoke share link'', docs')
           | (Inr updated, docs') \<Rightarrow> (Inr (), docs')))"

text \<open>
  \<^verbatim>\<open>incrementAccessCount\<close>: \<^verbatim>\<open>(shareLink.accessCount || 0) + 1\<close>, where
  \<^verbatim>\<open>accessCount || 0\<close> is 0 for the falsy count 0.
\<close>

definition ShareLinkRepo_incrementAccessCount ::
  "services \<Rightarrow> IShareLink list \<Rightarrow> string \<Rightarrow> (error + unit) \<times> IShareLink list" where
  "ShareLinkRepo_incrementAccessCount svc docs lid =
     (case ShareLinkRepo_getShareLinkById svc docs lid of
        Inl e \<Rightarrow> (Inl ''Failed to increment access count'', docs)
      | Inr None \<Rightarrow> (Inl ''Failed to increment access count'', docs)
      | Inr (Some link) \<Rightarrow>
          (case ShareLinkRepo_updateShareLink svc docs
                  (link\<lparr>accessCount := (if accessCount link = 0 then 0 else accessCount link) + 1\<rparr>) of
             (Inl e, docs') \<Rightarrow> (Inl ''Failed to increment access count'', docs')
           | (Inr updated, docs') \<Rightarrow> (Inr (), docs')))"



subsection \<open>The Files container\<close>

text \<open>
  The file repository \<^verbatim>\<open>CosmosFileRepo\<close> (its code stands in the source file
  models/User.ts). \<^verbatim>\<open>getFileById\<close>: \<^verbatim>\<open>resources[0]\<close> or null; an error with code 404
  is null, any other is rethrown as "Failed to get file".
\<close>

definition FileRepo_getFileById :: "services \<Rightarrow> IFile list \<Rightarrow> string \<Rightarrow> error + IFile option" where
  "FileRepo_getFileById svc fs fid =
     (case fileQueryError svc of
        None \<Rightarrow> Inr (find (\<lambda>f. IFile.fileId f = fid) fs)
      | Some code \<Rightarrow> if code = 404 then Inr None else Inl ''Failed to get file'')"



subsection \<open>Blob storage (services/azure/BlobService.ts)\<close>

text \<open>
  \<^verbatim>\<open>generateBlobSASUrl\<close>, reached through \<^verbatim>\<open>getBlobUrl\<close>. \<open>t\<close> is the reading of
  \<^verbatim>\<open>new Date()\<close>; \<^verbatim>\<open>setHours(getHours() + h)\<close> adds \<open>h * 3600000\<close> ms and clips the
  result. The signing formats \<^verbatim>\<open>expiresOn\<close> as an ISO string, which throws for the
  Invalid Date. Every throw is rethrown with one message.
\<close>

definition generateBlobSASUrl :: "services \<Rightarrow> string \<Rightarrow> int \<Rightarrow> date \<Rightarrow> error + string" where
  "generateBlobSASUrl svc blobName expiresInHours t =
     (case blobConfig svc of
        None \<Rightarrow> Inl ''Failed to generate blob access URL''
      | Some config \<Rightarrow>
          (case TimeClip (t + expiresInHours * 3600000) of
             InvalidDate \<Rightarrow> Inl ''Failed to generate blob access URL''
           | Date expiresOn \<Rightarrow>
               (let sasToken = sasSign svc (containerName config) blobName expiresOn
                in Inr (''https://'' @ accountName config @ ''.blob.core.windows.net/''
                          @ containerName config @ ''/'' @ blobName @ ''?'' @ sasToken))))"

definition getBlobUrl :: "services \<Rightarrow> string \<Rightarrow> int \<Rightarrow> date \<Rightarrow> error + string" where
  "getBlobUrl svc blobName expiresInHours t = generateBlobSASUrl svc blobName expiresInHours t"


subsection \<open>The share link service (services/ShareLinkService.ts)\<close>

text \<open>
  \<^verbatim>\<open>createShareLink\<close>. \<open>uuid\<close> is the value of \<^verbatim>\<open>uuidv4()\<close>. The
  \<^verbatim>\<open>expiryDate\<close> of the link is \<^verbatim>\<open>expiryDate || new Date()\<close>, where every \<^verbatim>\<open>Date\<close>
  object is truthy, the Invalid Date too. The link is written as the store holds and
  returns it (\<open>toJSON\<close>); an error of the file lookup is rethrown as it is.
\<close>

definition createShareLink ::
  "services \<Rightarrow> create_clock \<Rightarrow> string \<Rightarrow> world \<Rightarrow> CreateShareLinkData
     \<Rightarrow> (error + IShareLink) \<times> world" where
  "createShareLink svc clk uuid w data =
     (case FileRepo_getFileById svc (files w) (CreateShareLinkData.fileId data) of
        Inl e \<Rightarrow> (Inl e, w)
      | Inr None \<Rightarrow> (Inl ''File not found'', w)
      | Inr (Some f) \<Rightarrow>
          if IFile.userId f \<noteq> CreateShareLinkData.userId data
          then (Inl ''Unauthorized access to file'', w)
          else if status f \<noteq> active
          then (Inl ''Cannot share deleted file'', w)
          else
            (let expiry = calculateExpiryDate (tExpiry clk) (expirationDays data);
                 ttl' = calculateTTL (tTTL clk) expiry;
                 link = \<lparr>linkId = uuid,
                         fileId = CreateShareLinkData.fileId data,
                         userId = CreateShareLinkData.userId data,
                         expiryDate =
                           toJSON (case expiry of Some d \<Rightarrow> d | None \<Rightarrow> Date (tFallback clk)),
                         accessCount = 0,
                         createdDate = tCreated clk,
                         isRevoked = False,
                         ttl = ttl'\<rparr>
             in (case ShareLinkRepo_createShareLink svc (shareLinks w) link of
                   (Inl e, docs') \<Rightarrow> (Inl e, w\<lparr>shareLinks := docs'\<rparr>)
                 | (Inr createdLink, docs') \<Rightarrow> (Inr createdLink, w\<lparr>shareLinks := docs'\<rparr>))))"

text \<open>
  The blob name that \<^verbatim>\<open>getFileByShareLink\<close> extracts from the stored \<^verbatim>\<open>blobUrl\<close>:
  the query string is cut off, the path is split at \<^verbatim>\<open>/\<close>, and the parts after the
  account and the container are joined again.
\<close>

definition blobNameOfUrl :: "string \<Rightarrow> string" where
  "blobNameOfUrl url =
     (let urlWithoutQuery = (case split (CHR ''?'') url of [] \<Rightarrow> [] | p # ps \<Rightarrow> p);
          blobUrlParts = split (CHR ''/'') urlWithoutQuery;
          containerIndex = findIndex (\<lambda>part. str_includes part ''.blob.core.windows.net'') blobUrlParts
      in join ''/'' (slice (containerIndex + 2) blobUrlParts))"

text \<open>
  \<^verbatim>\<open>sasExpirationHours\<close>:
  \<^verbatim>\<open>Math.min(Math.max(1, Math.floor((expiryDate - now) / (1000 * 60 * 60))), 24)\<close>,
  where \<^verbatim>\<open>expiryDate = new Date(shareLink.expiryDate)\<close>: the stored date, and the epoch
  (time value 0) for a stored \<^verbatim>\<open>null\<close>.
\<close>

definition sasExpirationHours :: "date option \<Rightarrow> date \<Rightarrow> int" where
  "sasExpirationHours expiry now =
     (let expiryDate = (case expiry of None \<Rightarrow> 0 | Some e \<Rightarrow> e);
          hoursUntilExpiry = max 1 ((expiryDate - now) div (1000 * 60 * 60))
      in min hoursUntilExpiry 24)"

text \<open>
  \<^verbatim>\<open>getFileByShareLink\<close>: the result holds the whole file record and the link as read.
  An error of a lookup is rethrown as it is.
\<close>

definition getFileByShareLink ::
  "services \<Rightarrow> resolve_clock \<Rightarrow> world \<Rightarrow> string \<Rightarrow> (error + ShareLinkFile) \<times> world" where
  "getFileByShareLink svc clk w lid =
     (case ShareLinkRepo_getShareLinkById svc (shareLinks w) lid of
        Inl e \<Rightarrow> (Inl e, w)
      | Inr None \<Rightarrow> (Inl ''Share link not found'', w)
      | Inr (Some link) \<Rightarrow>
          if \<not> isShareLinkValid link (tValid clk)
          then (Inl ''Share link is expired or revoked'', w)
          else
            (case FileRepo_getFileById svc (files w) (fileId link) of
               Inl e \<Rightarrow> (Inl e, w)
             | Inr None \<Rightarrow> (Inl ''File not found or deleted'', w)
             | Inr (Some f) \<Rightarrow>
                 if status f \<noteq> active then (Inl ''File not found or deleted'', w)
                 else
                   (case getBlobUrl svc (blobNameOfUrl (blobUrl f))
                           (sasExpirationHours (expiryDate link) (tNow clk)) (tSign clk) of
                      Inl e \<Rightarrow> (Inl e, w)
                    | Inr sasUrl \<Rightarrow>
                        (case ShareLinkRepo_incrementAccessCount svc (shareLinks w) lid of
                           (Inl e, docs') \<Rightarrow> (Inl e, w\<lparr>shareLinks := docs'\<rparr>)
                         | (Inr u, docs') \<Rightarrow>
                             (Inr \<lparr>file = f, shareLink = link, downloadUrl = sasUrl\<rparr>,
                              w\<lparr>shareLinks := docs'\<rparr>)))))"

text \<open>\<^verbatim>\<open>revokeShareLink\<close> of the service: the owner check, then the repository.\<close>

definition revokeShareLink ::
  "services \<Rightarrow> world \<Rightarrow> string \<Rightarrow> string \<Rightarrow> (error + unit) \<times> world" where
  "revokeShareLink svc w lid uid =
     (case ShareLinkRepo_getShareLinkById svc (shareLinks w) lid of
        Inl e \<Rightarrow> (Inl e, w)
      | Inr None \<Rightarrow> (Inl ''Share link not found'', w)
      | Inr (Some link) \<Rightarrow>
          if userId link \<noteq> uid then (Inl ''Unauthorized access'', w)
          else
            (case ShareLinkRepo_revokeShareLink svc (shareLinks w) lid of
               (r, docs') \<Rightarrow> (r, w\<lparr>shareLinks := docs'\<rparr>)))"

subsection \<open>The file service (services/FileService.ts)\<close>



subsection \<open>The share route (routes/ShareRoutes.ts)\<close>

text \<open>The status that the \<^verbatim>\<open>catch\<close> of the route \<^verbatim>\<open>getFileByShareLink\<close> picks.\<close>

definition shareErrorStatus :: "error \<Rightarrow> nat" where
  "shareErrorStatus message =
     (if str_includes message ''not found'' then 404
      else if str_includes message ''expired'' \<or> str_includes message ''revoked'' then 410
      else 400)"

text \<open>
  The route \<^verbatim>\<open>getFileByShareLink\<close>: the HTTP status with the JSON body, which is the
  service's result as it is, or the error message.
\<close>

definition ShareRoutes_getFileByShareLink ::
  "services \<Rightarrow> resolve_clock \<Rightarrow> world \<Rightarrow> string \<Rightarrow> (nat \<times> (error + ShareLinkFile)) \<times> world" where
  "ShareRoutes_getFileByShareLink svc clk w lid =
     (if lid = [] then ((400, Inl ''Link ID is required''), w)
      else
        (case getFileByShareLink svc clk w lid of
           (Inr result, w') \<Rightarrow> ((200, Inr result), w')
         | (Inl message, w') \<Rightarrow>
             ((shareErrorStatus message,
               Inl (if message = [] then ''Failed to access share link'' else message)), w')))"

section \<open>Record invariants of the specification\<close>

text \<open>
  The record invariants of the specification's data model, between a record before and
  after a mutation: the identity and provenance fields are unchanged, \<^verbatim>\<open>revoked\<close> does
  not go back to false, and \<^verbatim>\<open>accessCount\<close> does not decrease.
\<close>

definition preserved :: "IShareLink \<Rightarrow> IShareLink \<Rightarrow> bool" where
  "preserved before after =
     (linkId after = linkId before \<and> fileId after = fileId before
      \<and> userId after = userId before \<and> createdDate after = createdDate before
      \<and> expiryDate after = expiryDate before
      \<and> (isRevoked before \<longrightarrow> isRevoked after)
      \<and> accessCount before \<le> accessCount after)"

section \<open>A concrete deployment for evaluating the code\<close>

text \<open>
  Services that never fail, with a storage account \<^verbatim>\<open>acct\<close> and a container \<^verbatim>\<open>pix\<close>; the
  active file \<^verbatim>\<open>f1\<close> of the user \<^verbatim>\<open>u1\<close>; a link \<^verbatim>\<open>l1\<close> on it, created at 3600000 ms
  for one day; clock readings; and the variations that the evaluations below use.
\<close>

definition svc0 :: services where
  "svc0 = \<lparr>queryError = None, createThrows = False, replaceThrows = (\<lambda>lid. False),
            deleteThrows = (\<lambda>lid. False), fileQueryError = None,
            fileDeleteError = (\<lambda>fid. None), blobDeleteThrows = False,
            blobConfig = Some \<lparr>accountName = ''acct'', containerName = ''pix''\<rparr>,
            sasSign = (\<lambda>container blobName expiresOn. ''sig=s'')\<rparr>"

definition file1 :: IFile where
  "file1 = \<lparr>IFile.fileId = ''f1'', userId = ''u1'', fileName = ''a.png'',
             blobUrl = ''https://acct.blob.core.windows.net/pix/u1/f1/a.png?sig=k'',
             fileSize = 10, contentType = ''image/png'', uploadDate = 0, status = active\<rparr>"

definition link1 :: IShareLink where
  "link1 = \<lparr>linkId = ''l1'', fileId = ''f1'', userId = ''u1'', expiryDate = Some 90000000,
             accessCount = 0, createdDate = 3600000, isRevoked = False, ttl = Some 86400\<rparr>"

definition world0 :: world where
  "world0 = \<lparr>files = [file1], shareLinks = [], blobs = [''u1/f1/a.png'']\<rparr>"

definition world1 :: world where
  "world1 = \<lparr>files = [file1], shareLinks = [link1], blobs = [''u1/f1/a.png'']\<rparr>"

definition clock0 :: create_clock where
  "clock0 = \<lparr>tExpiry = 1000, tTTL = 1000, tFallback = 1000, tCreated = 1000\<rparr>"

definition neverData :: CreateShareLinkData where
  "neverData = \<lparr>CreateShareLinkData.fileId = ''f1'', userId = ''u1'', expirationDays = None\<rparr>"

definition neverLink :: IShareLink where
  "neverLink = \<lparr>linkId = ''l9'', fileId = ''f1'', userId = ''u1'', expiryDate = Some 1000,
                 accessCount = 0, createdDate = 1000, isRevoked = False, ttl = None\<rparr>"


definition clock1 :: resolve_clock where
  "clock1 = \<lparr>tValid = 4000000, tNow = 4000000, tSign = 4000000\<rparr>"

definition clockLate :: resolve_clock where
  "clockLate = \<lparr>tValid = 90000001, tNow = 90000001, tSign = 90000001\<rparr>"

definition clock5s :: resolve_clock where
  "clock5s = \<lparr>tValid = 89995000, tNow = 89995000, tSign = 89995000\<rparr>"

definition worldRevoked :: world where
  "worldRevoked = world1\<lparr>shareLinks := [link1\<lparr>isRevoked := True\<rparr>]\<rparr>"

definition svcReplaceFails :: services where
  "svcReplaceFails = svc0\<lparr>replaceThrows := (\<lambda>lid. True)\<rparr>"

definition resolved1 :: ShareLinkFile where
  "resolved1 = \<lparr>file = file1, shareLink = link1,
                  downloadUrl = ''https://acct.blob.core.windows.net/pix/u1/f1/a.png?sig=s''\<rparr>"

definition linkUsed :: IShareLink where
  "linkUsed = link1\<lparr>accessCount := 5, isRevoked := True\<rparr>"











definition svcStamp :: services where
  "svcStamp = svc0\<lparr>sasSign := (\<lambda>container blobName expiresOn.
                 if expiresOn = 93595000 then ''se=93595000'' else ''se=other'')\<rparr>"


section \<open>Properties\<close>

subsection \<open>Validity\<close>

lemma isShareLinkValid_after_expiry:
  "expiryDate link = Some e \<Longrightarrow> e < now \<Longrightarrow> \<not> isShareLinkValid link now"
  by (simp add: isShareLinkValid_def)

text \<open>
  C4, as the specification states it, fails at the boundary: at \<open>now = expiresAt\<close> the
  code's \<^verbatim>\<open>isShareLinkValid\<close> still answers valid, where the specification's rule
  \<open>now < expiresAt\<close> answers invalid.
\<close>

theorem C4_validate_boundary_counterexample:
  "isShareLinkValid link1 90000000
   \<and> \<not> Validate_spec (isRevoked link1) (expiryDate link1) 90000000"
  by (simp add: isShareLinkValid_def Validate_spec_def link1_def)

text \<open>
  C4, amended: the verdict of \<^verbatim>\<open>isShareLinkValid\<close> is a function of the triple
  (revoked, expiresAt, now) alone: valid iff not revoked and (the expiry date is absent or
  \<open>now \<le> expiresAt\<close>). At the boundary instant \<open>now = expiresAt\<close> an unrevoked link is
  still valid.
\<close>

theorem C4_validate_function_of_triple:
  "isShareLinkValid link now
     = (\<not> isRevoked link \<and> (case expiryDate link of None \<Rightarrow> True | Some e \<Rightarrow> now \<le> e))
   \<and> isShareLinkValid (link\<lparr>expiryDate := Some now\<rparr>) now = (\<not> isRevoked link)"
  by (auto simp: isShareLinkValid_def split: option.splits)

subsection \<open>Creation\<close>

text \<open>
  A link created without a duration, or with the duration 0, stores the clock reading of
  \<^verbatim>\<open>expiryDate || new Date()\<close> as its expiry date.
\<close>

lemma createShareLink_never_expiry:
  assumes "fst (createShareLink svc clk uuid w data) = Inr link"
    and "expirationDays data = None \<or> expirationDays data = Some 0"
  shows "expiryDate link = Some (tFallback clk)"
  using assms
  by (auto simp: createShareLink_def calculateExpiryDate_def ShareLinkRepo_createShareLink_def
        toJSON_def Let_def split: option.splits if_splits sum.splits)

text \<open>
  C1 (the code at the failing input): a link created with no duration at clock reading
  1000 stores 1000, the creation instant, as its expiry date, not a far-future or absent
  value, and \<^verbatim>\<open>isShareLinkValid\<close> rejects it one millisecond later.
\<close>

theorem C1_never_link_expires_at_once:
  "fst (createShareLink svc0 clock0 ''l9'' world0 neverData) = Inr neverLink
   \<and> expiryDate neverLink = Some (tCreated clock0)
   \<and> isShareLinkValid neverLink 1001 = False"
  by code_simp





subsection \<open>Resolution\<close>

lemma status_expired_or_revoked: "shareErrorStatus ''Share link is expired or revoked'' = 410"
  by code_simp

text \<open>
  C2 (the code at the failing input): a successful resolution answers 200 with the
  service's result as the body, and that result holds the whole file record: the stored
  \<^verbatim>\<open>blobUrl\<close> of the file is part of the payload.
\<close>

theorem C2_payload_holds_blobUrl:
  "fst (ShareRoutes_getFileByShareLink svc0 clock1 world1 ''l1'') = (200, Inr resolved1)
   \<and> blobUrl (file resolved1) = ''https://acct.blob.core.windows.net/pix/u1/f1/a.png?sig=k''
   \<and> blobUrl (file resolved1) = blobUrl file1"
  by code_simp

text \<open>
  C3, as the specification states it, fails: a link that is revoked and not expired and
  a link that is expired and not revoked are answered with the same status and the same
  message, so the caller cannot tell the two causes apart.
\<close>

theorem C3_one_error_counterexample:
  "isRevoked link1 = False \<and> isShareLinkValid link1 (tValid clock1)
   \<and> fst (ShareRoutes_getFileByShareLink svc0 clock1 worldRevoked ''l1'')
       = (410, Inl ''Share link is expired or revoked'')
   \<and> fst (ShareRoutes_getFileByShareLink svc0 clockLate world1 ''l1'')
       = (410, Inl ''Share link is expired or revoked'')"
  by code_simp

text \<open>
  C3, amended: whenever the link is found and fails validation, for either cause,
  resolution fails with the one error "Share link is expired or revoked", which the
  route answers with status 410; nothing is changed in the store.
\<close>

theorem C3_invalid_link_one_error:
  assumes "ShareLinkRepo_getShareLinkById svc (shareLinks w) lid = Inr (Some link)"
    and "\<not> isShareLinkValid link (tValid clk)"
    and "lid \<noteq> []"
  shows "getFileByShareLink svc clk w lid = (Inl ''Share link is expired or revoked'', w)
    \<and> ShareRoutes_getFileByShareLink svc clk w lid
        = ((410, Inl ''Share link is expired or revoked''), w)"
proof -
  have "getFileByShareLink svc clk w lid = (Inl ''Share link is expired or revoked'', w)"
    using assms by (simp add: getFileByShareLink_def)
  then show ?thesis
    using assms(3) by (simp add: ShareRoutes_getFileByShareLink_def status_expired_or_revoked)
qed

text \<open>C3, amended, at a revoked link.\<close>

theorem C3_invalid_link_one_error_witness:
  "ShareLinkRepo_getShareLinkById svc0 (shareLinks worldRevoked) ''l1''
      = Inr (Some (link1\<lparr>isRevoked := True\<rparr>))
   \<and> \<not> isShareLinkValid (link1\<lparr>isRevoked := True\<rparr>) (tValid clock1)
   \<and> ''l1'' \<noteq> []
   \<and> getFileByShareLink svc0 clock1 worldRevoked ''l1''
       = (Inl ''Share link is expired or revoked'', worldRevoked)
   \<and> ShareRoutes_getFileByShareLink svc0 clock1 worldRevoked ''l1''
       = ((410, Inl ''Share link is expired or revoked''), worldRevoked)"
proof -
  have h1: "ShareLinkRepo_getShareLinkById svc0 (shareLinks worldRevoked) ''l1''
      = Inr (Some (link1\<lparr>isRevoked := True\<rparr>))"
    by code_simp
  have h2: "\<not> isShareLinkValid (link1\<lparr>isRevoked := True\<rparr>) (tValid clock1)"
    by code_simp
  have h3: "''l1'' \<noteq> []" by simp
  from C3_invalid_link_one_error [OF h1 h2 h3] h1 h2 h3 show ?thesis by blast
qed

text \<open>
  C6, as the specification states it, fails: with validation, the file check and the
  minting passed, a store that rejects the replace makes \<^verbatim>\<open>incrementAccessCount\<close> throw,
  and the resolution is answered with status 400 and no credential.
\<close>

theorem C6_counterexample:
  "isShareLinkValid link1 (tValid clock1)
   \<and> FileRepo_getFileById svcReplaceFails (files world1) (fileId link1) = Inr (Some file1)
   \<and> getBlobUrl svcReplaceFails (blobNameOfUrl (blobUrl file1))
        (sasExpirationHours (expiryDate link1) (tNow clock1)) (tSign clock1)
       = Inr ''https://acct.blob.core.windows.net/pix/u1/f1/a.png?sig=s''
   \<and> fst (ShareLinkRepo_incrementAccessCount svcReplaceFails (shareLinks world1) ''l1'')
       = Inl ''Failed to increment access count''
   \<and> fst (ShareRoutes_getFileByShareLink svcReplaceFails clock1 world1 ''l1'')
       = (400, Inl ''Failed to increment access count'')"
  by code_simp

text \<open>\<^verbatim>\<open>incrementAccessCount\<close> throws one message only.\<close>

lemma incrementAccessCount_error:
  "fst (ShareLinkRepo_incrementAccessCount svc docs lid) = Inl e
     \<Longrightarrow> e = ''Failed to increment access count''"
  by (auto simp: ShareLinkRepo_incrementAccessCount_def split: sum.splits option.splits prod.splits)

lemma status_increment_failed: "shareErrorStatus ''Failed to increment access count'' = 400"
  by code_simp

text \<open>
  C6, amended: when validation, the file check and the minting have passed and the
  access accounting fails, the resolution fails with "Failed to increment access count",
  which the route answers with status 400: the credential is not returned.
\<close>

theorem C6_accounting_failure_blocks:
  assumes "ShareLinkRepo_getShareLinkById svc (shareLinks w) lid = Inr (Some link)"
    and "isShareLinkValid link (tValid clk)"
    and "FileRepo_getFileById svc (files w) (fileId link) = Inr (Some f)"
    and "status f = active"
    and "getBlobUrl svc (blobNameOfUrl (blobUrl f))
           (sasExpirationHours (expiryDate link) (tNow clk)) (tSign clk) = Inr sasUrl"
    and "fst (ShareLinkRepo_incrementAccessCount svc (shareLinks w) lid) = Inl e"
  shows "fst (getFileByShareLink svc clk w lid) = Inl ''Failed to increment access count''
    \<and> (lid \<noteq> [] \<longrightarrow> fst (ShareRoutes_getFileByShareLink svc clk w lid)
                        = (400, Inl ''Failed to increment access count''))"
proof -
  have s: "fst (getFileByShareLink svc clk w lid) = Inl ''Failed to increment access count''"
    using assms incrementAccessCount_error [OF assms(6)]
    by (auto simp: getFileByShareLink_def split: prod.splits sum.splits)
  then have "lid \<noteq> [] \<longrightarrow> fst (ShareRoutes_getFileByShareLink svc clk w lid)
                        = (400, Inl ''Failed to increment access count'')"
    by (auto simp: ShareRoutes_getFileByShareLink_def status_increment_failed
          split: prod.splits sum.splits)
  with s show ?thesis by simp
qed

text \<open>C6, amended, at a store that rejects the replace.\<close>

theorem C6_accounting_failure_blocks_witness:
  "ShareLinkRepo_getShareLinkById svcReplaceFails (shareLinks world1) ''l1'' = Inr (Some link1)
   \<and> isShareLinkValid link1 (tValid clock1)
   \<and> FileRepo_getFileById svcReplaceFails (files world1) (fileId link1) = Inr (Some file1)
   \<and> status file1 = active
   \<and> getBlobUrl svcReplaceFails (blobNameOfUrl (blobUrl file1))
        (sasExpirationHours (expiryDate link1) (tNow clock1)) (tSign clock1)
       = Inr ''https://acct.blob.core.windows.net/pix/u1/f1/a.png?sig=s''
   \<and> fst (ShareLinkRepo_incrementAccessCount svcReplaceFails (shareLinks world1) ''l1'')
       = Inl ''Failed to increment access count''
   \<and> ''l1'' \<noteq> []
   \<and> fst (getFileByShareLink svcReplaceFails clock1 world1 ''l1'')
       = Inl ''Failed to increment access count''
   \<and> fst (ShareRoutes_getFileByShareLink svcReplaceFails clock1 world1 ''l1'')
       = (400, Inl ''Failed to increment access count'')"
proof -
  have h1: "ShareLinkRepo_getShareLinkById svcReplaceFails (shareLinks world1) ''l1''
      = Inr (Some link1)"
    by code_simp
  have h2: "isShareLinkValid link1 (tValid clock1)" by code_simp
  have h3: "FileRepo_getFileById svcReplaceFails (files world1) (fileId link1) = Inr (Some file1)"
    by code_simp
  have h4: "status file1 = active" by code_simp
  have h5: "getBlobUrl svcReplaceFails (blobNameOfUrl (blobUrl file1))
        (sasExpirationHours (expiryDate link1) (tNow clock1)) (tSign clock1)
       = Inr ''https://acct.blob.core.windows.net/pix/u1/f1/a.png?sig=s''"
    by code_simp
  have h6: "fst (ShareLinkRepo_incrementAccessCount svcReplaceFails (shareLinks world1) ''l1'')
       = Inl ''Failed to increment access count''"
    by code_simp
  have h7: "''l1'' \<noteq> []" by simp
  note c = C6_accounting_failure_blocks [OF h1 h2 h3 h4 h5 h6]
  have s1: "fst (getFileByShareLink svcReplaceFails clock1 world1 ''l1'')
       = Inl ''Failed to increment access count''"
    using c by (rule conjunct1)
  have s2: "fst (ShareRoutes_getFileByShareLink svcReplaceFails clock1 world1 ''l1'')
       = (400, Inl ''Failed to increment access count'')"
    using c [THEN conjunct2, rule_format, OF h7] .
  show ?thesis
    by (intro conjI) (fact h1 h2 h3 h4 h5 h6 h7 s1 s2)+
qed

text \<open>The hours of the credential are between 1 and 24.\<close>

lemma sasExpirationHours_bounds:
  "1 \<le> sasExpirationHours expiry now \<and> sasExpirationHours expiry now \<le> 24"
  by (simp add: sasExpirationHours_def Let_def)

text \<open>
  Every successful resolution returns a URL signed to expire \<^verbatim>\<open>sasExpirationHours\<close> hours
  after the clock reading of the signing.
\<close>

lemma getFileByShareLink_credential:
  assumes "fst (getFileByShareLink svc clk w lid) = Inr r"
  shows "\<exists>config. blobConfig svc = Some config
    \<and> downloadUrl r = ''https://'' @ accountName config @ ''.blob.core.windows.net/''
         @ containerName config @ ''/'' @ blobNameOfUrl (blobUrl (file r)) @ ''?''
         @ sasSign svc (containerName config) (blobNameOfUrl (blobUrl (file r)))
             (tSign clk + sasExpirationHours (expiryDate (shareLink r)) (tNow clk) * 3600000)"
proof -
  from assms obtain link f sasUrl where
    r: "r = \<lparr>file = f, shareLink = link, downloadUrl = sasUrl\<rparr>"
    and url: "getBlobUrl svc (blobNameOfUrl (blobUrl f))
           (sasExpirationHours (expiryDate link) (tNow clk)) (tSign clk) = Inr sasUrl"
    by (auto simp: getFileByShareLink_def split: sum.splits option.splits if_splits prod.splits)
  from url show ?thesis
    by (auto simp: r getBlobUrl_def generateBlobSASUrl_def TimeClip_def Let_def
          split: option.splits if_splits)
qed

text \<open>
  C7 (the code at the failing input): the link \<^verbatim>\<open>l1\<close> expires at 90000000 ms and is
  resolved five seconds before. The resolution succeeds, the hours of the credential are
  1, and the URL is signed to expire at 93595000 ms: the credential lives for one hour,
  which is more than the five seconds remaining and 3595 seconds beyond the link's own
  expiry.
\<close>

theorem C7_one_hour_credential_for_five_seconds:
  "expiryDate link1 = Some 90000000 \<and> tNow clock5s = 90000000 - 5000
   \<and> sasExpirationHours (expiryDate link1) (tNow clock5s) = 1
   \<and> fst (getFileByShareLink svcStamp clock5s world1 ''l1'')
       = Inr \<lparr>file = file1, shareLink = link1,
              downloadUrl = ''https://acct.blob.core.windows.net/pix/u1/f1/a.png?se=93595000''\<rparr>
   \<and> (93595000 :: int) - tSign clock5s = 3600000
   \<and> \<not> ((3600000 :: int) \<le> 90000000 - tNow clock5s)"
  by code_simp

subsection \<open>Mutations of a stored link\<close>

lemma find_linkId:
  "find (\<lambda>d. linkId d = lid) docs = Some link \<Longrightarrow> linkId link = lid"
  by (induction docs) (auto split: if_splits)

lemma find_replaceItem:
  "find (\<lambda>d. linkId d = lid) docs = Some link \<Longrightarrow> linkId body = lid
     \<Longrightarrow> find (\<lambda>d. linkId d = lid) (replaceItem lid body docs) = Some body"
  by (induction docs) (auto split: if_splits)

lemma replaceItem_twice:
  "linkId body = lid \<Longrightarrow> replaceItem lid body (replaceItem lid body docs) = replaceItem lid body docs"
  by (induction docs) auto

lemma preserved_refl: "preserved d d"
  by (simp add: preserved_def)

lemma list_all2_preserved_refl: "list_all2 preserved docs docs"
  by (simp add: list_all2_refl preserved_refl)

lemma preserved_replaceItem:
  "find (\<lambda>d. linkId d = lid) docs = Some link \<Longrightarrow> preserved link body
     \<Longrightarrow> list_all2 preserved docs (replaceItem lid body docs)"
  by (induction docs) (auto simp: list_all2_preserved_refl preserved_refl split: if_splits)

lemma updateShareLink_cases:
  "ShareLinkRepo_updateShareLink svc docs body = (r, docs')
     \<Longrightarrow> docs' = docs
        \<or> (\<exists>link. find (\<lambda>d. linkId d = linkId body) docs = Some link
              \<and> docs' = replaceItem (linkId body) body docs)"
  by (auto simp: ShareLinkRepo_updateShareLink_def ShareLinkRepo_getShareLinkById_def
        split: sum.splits option.splits if_splits)

lemma preserved_revoke_repo:
  "list_all2 preserved docs (snd (ShareLinkRepo_revokeShareLink svc docs lid))"
proof (cases "ShareLinkRepo_getShareLinkById svc docs lid")
  case (Inl e)
  then show ?thesis
    by (simp add: ShareLinkRepo_revokeShareLink_def list_all2_preserved_refl)
next
  case (Inr found)
  show ?thesis
  proof (cases found)
    case None
    with Inr show ?thesis
      by (simp add: ShareLinkRepo_revokeShareLink_def list_all2_preserved_refl)
  next
    case (Some link)
    with Inr have f: "find (\<lambda>d. linkId d = lid) docs = Some link"
      by (auto simp: ShareLinkRepo_getShareLinkById_def split: option.splits if_splits)
    have lid: "linkId link = lid" using f by (rule find_linkId)
    obtain r docs' where u: "ShareLinkRepo_updateShareLink svc docs (link\<lparr>isRevoked := True\<rparr>) = (r, docs')"
      by (cases "ShareLinkRepo_updateShareLink svc docs (link\<lparr>isRevoked := True\<rparr>)")
    have "list_all2 preserved docs docs'"
      using updateShareLink_cases [OF u] f lid
      by (auto simp: list_all2_preserved_refl preserved_def intro!: preserved_replaceItem)
    moreover have "snd (ShareLinkRepo_revokeShareLink svc docs lid) = docs'"
      using Inr Some u by (auto simp: ShareLinkRepo_revokeShareLink_def split: sum.splits)
    ultimately show ?thesis by simp
  qed
qed

lemma preserved_increment_repo:
  "list_all2 preserved docs (snd (ShareLinkRepo_incrementAccessCount svc docs lid))"
proof (cases "ShareLinkRepo_getShareLinkById svc docs lid")
  case (Inl e)
  then show ?thesis
    by (simp add: ShareLinkRepo_incrementAccessCount_def list_all2_preserved_refl)
next
  case (Inr found)
  show ?thesis
  proof (cases found)
    case None
    with Inr show ?thesis
      by (simp add: ShareLinkRepo_incrementAccessCount_def list_all2_preserved_refl)
  next
    case (Some link)
    with Inr have f: "find (\<lambda>d. linkId d = lid) docs = Some link"
      by (auto simp: ShareLinkRepo_getShareLinkById_def split: option.splits if_splits)
    have lid: "linkId link = lid" using f by (rule find_linkId)
    define body where "body = link\<lparr>accessCount := (if accessCount link = 0 then 0 else accessCount link) + 1\<rparr>"
    obtain r docs' where u: "ShareLinkRepo_updateShareLink svc docs body = (r, docs')"
      by (cases "ShareLinkRepo_updateShareLink svc docs body")
    have "preserved link body" by (simp add: preserved_def body_def)
    moreover have "linkId body = lid" using lid by (simp add: body_def)
    ultimately have "list_all2 preserved docs docs'"
      using updateShareLink_cases [OF u] f
      by (auto simp: list_all2_preserved_refl intro!: preserved_replaceItem)
    moreover have "snd (ShareLinkRepo_incrementAccessCount svc docs lid) = docs'"
      using Inr Some u
      by (auto simp: ShareLinkRepo_incrementAccessCount_def body_def split: sum.splits)
    ultimately show ?thesis by simp
  qed
qed

text \<open>
  C9: revoke and record-access, in the repository and through the service operations
  that call them, leave every stored link in its place with its \<^verbatim>\<open>linkId\<close>,
  \<^verbatim>\<open>fileId\<close>, \<^verbatim>\<open>userId\<close>, \<^verbatim>\<open>createdDate\<close> and \<^verbatim>\<open>expiryDate\<close> unchanged; a revoked
  link stays revoked and no \<^verbatim>\<open>accessCount\<close> decreases. This holds whether the
  operation succeeds or fails.
\<close>

theorem C9_mutations_preserve_provenance:
  "list_all2 preserved docs (snd (ShareLinkRepo_revokeShareLink svc docs lid))
   \<and> list_all2 preserved docs (snd (ShareLinkRepo_incrementAccessCount svc docs lid))
   \<and> list_all2 preserved (shareLinks w) (shareLinks (snd (revokeShareLink svc w lid uid)))
   \<and> list_all2 preserved (shareLinks w) (shareLinks (snd (getFileByShareLink svc clk w lid)))"
proof (intro conjI)
  show "list_all2 preserved docs (snd (ShareLinkRepo_revokeShareLink svc docs lid))"
    by (rule preserved_revoke_repo)
  show "list_all2 preserved docs (snd (ShareLinkRepo_incrementAccessCount svc docs lid))"
    by (rule preserved_increment_repo)
  show "list_all2 preserved (shareLinks w) (shareLinks (snd (revokeShareLink svc w lid uid)))"
    using preserved_revoke_repo [of "shareLinks w" svc lid]
    by (auto simp: revokeShareLink_def list_all2_preserved_refl
          split: sum.splits option.splits prod.splits)
  show "list_all2 preserved (shareLinks w) (shareLinks (snd (getFileByShareLink svc clk w lid)))"
    using preserved_increment_repo [of "shareLinks w" svc lid]
    by (auto simp: getFileByShareLink_def list_all2_preserved_refl
          split: sum.splits option.splits prod.splits)
qed

text \<open>C9 at a revoked link with five recorded accesses.\<close>

theorem C9_mutations_preserve_provenance_witness:
  "isRevoked linkUsed
   \<and> snd (ShareLinkRepo_revokeShareLink svc0 [linkUsed] ''l1'') = [linkUsed]
   \<and> snd (ShareLinkRepo_incrementAccessCount svc0 [linkUsed] ''l1'')
       = [linkUsed\<lparr>accessCount := 6\<rparr>]
   \<and> preserved linkUsed linkUsed
   \<and> preserved linkUsed (linkUsed\<lparr>accessCount := 6\<rparr>)
   \<and> isRevoked (linkUsed\<lparr>accessCount := 6\<rparr>)"
proof -
  have h1: "isRevoked linkUsed" by code_simp
  have h2: "snd (ShareLinkRepo_revokeShareLink svc0 [linkUsed] ''l1'') = [linkUsed]"
    by code_simp
  have h3: "snd (ShareLinkRepo_incrementAccessCount svc0 [linkUsed] ''l1'')
       = [linkUsed\<lparr>accessCount := 6\<rparr>]"
    by code_simp
  have h4: "isRevoked (linkUsed\<lparr>accessCount := 6\<rparr>)" by code_simp
  from C9_mutations_preserve_provenance [of "[linkUsed]" svc0 "''l1''"]
  have "preserved linkUsed linkUsed \<and> preserved linkUsed (linkUsed\<lparr>accessCount := 6\<rparr>)"
    unfolding h2 h3 by simp
  with h1 h2 h3 h4 show ?thesis by blast
qed

text \<open>Revocation when the store answers.\<close>

lemma revoke_repo_ok:
  assumes "queryError svc = None"
    and "find (\<lambda>d. linkId d = lid) docs = Some link"
    and "\<not> replaceThrows svc lid"
  shows "ShareLinkRepo_revokeShareLink svc docs lid
           = (Inr (), replaceItem lid (link\<lparr>isRevoked := True\<rparr>) docs)"
  using assms find_linkId [OF assms(2)]
  by (simp add: ShareLinkRepo_revokeShareLink_def ShareLinkRepo_updateShareLink_def
        ShareLinkRepo_getShareLinkById_def)

lemma revoke_success_cases:
  assumes "fst (revokeShareLink svc w lid uid) = Inr ()"
  shows "\<exists>link. queryError svc = None \<and> find (\<lambda>d. linkId d = lid) (shareLinks w) = Some link
           \<and> userId link = uid \<and> \<not> replaceThrows svc lid"
  using assms
  by (auto simp: revokeShareLink_def ShareLinkRepo_revokeShareLink_def
        ShareLinkRepo_updateShareLink_def ShareLinkRepo_getShareLinkById_def
        dest: find_linkId split: sum.splits option.splits if_splits prod.splits)

lemma revoke_ok:
  assumes "queryError svc = None"
    and "find (\<lambda>d. linkId d = lid) (shareLinks w) = Some link"
    and "userId link = uid"
    and "\<not> replaceThrows svc lid"
  shows "revokeShareLink svc w lid uid
           = (Inr (), w\<lparr>shareLinks := replaceItem lid (link\<lparr>isRevoked := True\<rparr>) (shareLinks w)\<rparr>)"
  using assms revoke_repo_ok [OF assms(1,2,4)]
  by (simp add: revokeShareLink_def ShareLinkRepo_getShareLinkById_def)

text \<open>
  C8: revoke by the stored owner of an existing link succeeds when the store accepts the
  replace, and leaves the link revoked; once a revoke by the owner has succeeded, a
  second one succeeds as well and changes nothing. Revoke by anyone but the stored owner
  fails with "Unauthorized access" and changes nothing, before and after the owner's
  revoke. Revoke of an id that is not stored fails with "Share link not found".
\<close>

theorem C8_revoke_idempotent_owner_only:
  "(\<forall>link. ShareLinkRepo_getShareLinkById svc (shareLinks w) lid = Inr (Some link)
        \<and> userId link = uid \<and> \<not> replaceThrows svc lid
      \<longrightarrow> fst (revokeShareLink svc w lid uid) = Inr ()
          \<and> ShareLinkRepo_getShareLinkById svc (shareLinks (snd (revokeShareLink svc w lid uid))) lid
              = Inr (Some (link\<lparr>isRevoked := True\<rparr>)))
   \<and> (fst (revokeShareLink svc w lid uid) = Inr ()
      \<longrightarrow> revokeShareLink svc (snd (revokeShareLink svc w lid uid)) lid uid
            = (Inr (), snd (revokeShareLink svc w lid uid)))
   \<and> (\<forall>link. ShareLinkRepo_getShareLinkById svc (shareLinks w) lid = Inr (Some link)
        \<and> userId link \<noteq> uid
      \<longrightarrow> revokeShareLink svc w lid uid = (Inl ''Unauthorized access'', w))
   \<and> (\<forall>other. fst (revokeShareLink svc w lid uid) = Inr () \<and> other \<noteq> uid
      \<longrightarrow> revokeShareLink svc (snd (revokeShareLink svc w lid uid)) lid other
            = (Inl ''Unauthorized access'', snd (revokeShareLink svc w lid uid)))
   \<and> (ShareLinkRepo_getShareLinkById svc (shareLinks w) lid = Inr None
      \<longrightarrow> revokeShareLink svc w lid uid = (Inl ''Share link not found'', w))"
proof (intro conjI allI impI)
  fix link
  assume a: "ShareLinkRepo_getShareLinkById svc (shareLinks w) lid = Inr (Some link)
        \<and> userId link = uid \<and> \<not> replaceThrows svc lid"
  then have q: "queryError svc = None"
    and f: "find (\<lambda>d. linkId d = lid) (shareLinks w) = Some link"
    by (auto simp: ShareLinkRepo_getShareLinkById_def split: option.splits if_splits)
  from a have o: "userId link = uid" and nr: "\<not> replaceThrows svc lid" by simp_all
  note r = revoke_ok [OF q f o nr]
  show "fst (revokeShareLink svc w lid uid) = Inr ()" by (simp add: r)
  show "ShareLinkRepo_getShareLinkById svc (shareLinks (snd (revokeShareLink svc w lid uid))) lid
              = Inr (Some (link\<lparr>isRevoked := True\<rparr>))"
    using q find_replaceItem [OF f, of "link\<lparr>isRevoked := True\<rparr>"] find_linkId [OF f]
    by (simp add: r ShareLinkRepo_getShareLinkById_def)
next
  assume s: "fst (revokeShareLink svc w lid uid) = Inr ()"
  from revoke_success_cases [OF s] obtain link where
    q: "queryError svc = None" and f: "find (\<lambda>d. linkId d = lid) (shareLinks w) = Some link"
    and o: "userId link = uid" and nr: "\<not> replaceThrows svc lid"
    by blast
  define body where "body = link\<lparr>isRevoked := True\<rparr>"
  have lb: "linkId body = lid" using find_linkId [OF f] by (simp add: body_def)
  have r: "revokeShareLink svc w lid uid = (Inr (), w\<lparr>shareLinks := replaceItem lid body (shareLinks w)\<rparr>)"
    using revoke_ok [OF q f o nr] by (simp add: body_def)
  have f': "find (\<lambda>d. linkId d = lid) (shareLinks (w\<lparr>shareLinks := replaceItem lid body (shareLinks w)\<rparr>)) = Some body"
    using find_replaceItem [OF f lb] by simp
  have ob: "userId body = uid" using o by (simp add: body_def)
  have bb: "body\<lparr>isRevoked := True\<rparr> = body" by (simp add: body_def)
  show "revokeShareLink svc (snd (revokeShareLink svc w lid uid)) lid uid
            = (Inr (), snd (revokeShareLink svc w lid uid))"
    using revoke_ok [OF q f' ob nr] replaceItem_twice [OF lb, of "shareLinks w"]
    by (simp add: r bb)
next
  fix link
  assume "ShareLinkRepo_getShareLinkById svc (shareLinks w) lid = Inr (Some link)
        \<and> userId link \<noteq> uid"
  then show "revokeShareLink svc w lid uid = (Inl ''Unauthorized access'', w)"
    by (simp add: revokeShareLink_def)
next
  fix other
  assume a: "fst (revokeShareLink svc w lid uid) = Inr () \<and> other \<noteq> uid"
  from revoke_success_cases [of svc w lid uid] a obtain link where
    q: "queryError svc = None" and f: "find (\<lambda>d. linkId d = lid) (shareLinks w) = Some link"
    and o: "userId link = uid" and nr: "\<not> replaceThrows svc lid"
    by blast
  define body where "body = link\<lparr>isRevoked := True\<rparr>"
  have lb: "linkId body = lid" using find_linkId [OF f] by (simp add: body_def)
  have r: "revokeShareLink svc w lid uid = (Inr (), w\<lparr>shareLinks := replaceItem lid body (shareLinks w)\<rparr>)"
    using revoke_ok [OF q f o nr] by (simp add: body_def)
  have "ShareLinkRepo_getShareLinkById svc (replaceItem lid body (shareLinks w)) lid = Inr (Some body)"
    using q find_replaceItem [OF f lb] by (simp add: ShareLinkRepo_getShareLinkById_def)
  moreover have "userId body \<noteq> other" using o a by (auto simp: body_def)
  ultimately show "revokeShareLink svc (snd (revokeShareLink svc w lid uid)) lid other
            = (Inl ''Unauthorized access'', snd (revokeShareLink svc w lid uid))"
    unfolding r by (simp add: revokeShareLink_def)
next
  assume "ShareLinkRepo_getShareLinkById svc (shareLinks w) lid = Inr None"
  then show "revokeShareLink svc w lid uid = (Inl ''Share link not found'', w)"
    by (simp add: revokeShareLink_def)
qed

text \<open>C8 at the owner \<^verbatim>\<open>u1\<close>, the stranger \<^verbatim>\<open>u2\<close> and the unknown id \<^verbatim>\<open>zz\<close>.\<close>

theorem C8_revoke_idempotent_owner_only_witness:
  "ShareLinkRepo_getShareLinkById svc0 (shareLinks world1) ''l1'' = Inr (Some link1)
   \<and> userId link1 = ''u1'' \<and> \<not> replaceThrows svc0 ''l1''
   \<and> fst (revokeShareLink svc0 world1 ''l1'' ''u1'') = Inr ()
   \<and> snd (revokeShareLink svc0 world1 ''l1'' ''u1'') = worldRevoked
   \<and> revokeShareLink svc0 worldRevoked ''l1'' ''u1'' = (Inr (), worldRevoked)
   \<and> userId link1 \<noteq> ''u2''
   \<and> revokeShareLink svc0 world1 ''l1'' ''u2'' = (Inl ''Unauthorized access'', world1)
   \<and> revokeShareLink svc0 worldRevoked ''l1'' ''u2'' = (Inl ''Unauthorized access'', worldRevoked)
   \<and> ShareLinkRepo_getShareLinkById svc0 (shareLinks world1) ''zz'' = Inr None
   \<and> revokeShareLink svc0 world1 ''zz'' ''u1'' = (Inl ''Share link not found'', world1)"
proof -
  have h1: "ShareLinkRepo_getShareLinkById svc0 (shareLinks world1) ''l1'' = Inr (Some link1)"
    by code_simp
  have h2: "userId link1 = ''u1''" "\<not> replaceThrows svc0 ''l1''" by code_simp+
  have h3: "snd (revokeShareLink svc0 world1 ''l1'' ''u1'') = worldRevoked" by code_simp
  have h4: "userId link1 \<noteq> ''u2''" "''u2'' \<noteq> ''u1''" by code_simp+
  have h5: "ShareLinkRepo_getShareLinkById svc0 (shareLinks world1) ''zz'' = Inr None"
    by code_simp
  note owner = C8_revoke_idempotent_owner_only [of svc0 world1 "''l1''" "''u1''"]
  note stranger = C8_revoke_idempotent_owner_only [of svc0 world1 "''l1''" "''u2''"]
  note missing = C8_revoke_idempotent_owner_only [of svc0 world1 "''zz''" "''u1''"]
  note a1 = owner [THEN conjunct1, rule_format, of link1]
  note a2 = owner [THEN conjunct2, THEN conjunct1, rule_format]
  note a3 = stranger [THEN conjunct2, THEN conjunct2, THEN conjunct1, rule_format, of link1]
  note a4 = owner [THEN conjunct2, THEN conjunct2, THEN conjunct2, THEN conjunct1, rule_format,
      of "''u2''"]
  note a5 = missing [THEN conjunct2, THEN conjunct2, THEN conjunct2, THEN conjunct2, rule_format]
  have s1: "fst (revokeShareLink svc0 world1 ''l1'' ''u1'') = Inr ()"
    using a1 [OF conjI [OF h1 conjI [OF h2(1) h2(2)]]] by (rule conjunct1)
  have s2: "revokeShareLink svc0 worldRevoked ''l1'' ''u1'' = (Inr (), worldRevoked)"
    using a2 [OF s1] unfolding h3 .
  have s3: "revokeShareLink svc0 world1 ''l1'' ''u2'' = (Inl ''Unauthorized access'', world1)"
    using a3 [OF conjI [OF h1 h4(1)]] .
  have s4: "revokeShareLink svc0 worldRevoked ''l1'' ''u2'' = (Inl ''Unauthorized access'', worldRevoked)"
    using a4 [OF conjI [OF s1 h4(2)]] unfolding h3 .
  have s5: "revokeShareLink svc0 world1 ''zz'' ''u1'' = (Inl ''Share link not found'', world1)"
    using a5 [OF h5] .
  show ?thesis
    by (intro conjI) (fact h1 h2 h3 h4 h5 s1 s2 s3 s4 s5)+
qed

subsection \<open>Cascade on file deletion\<close>
















end
